theory Spec2Isabelle
  imports Main "HOL-Library.Word"
begin

section \<open>The validate tool (src/tools/validate.cc)\<close>

subsection \<open>Sections, results and the error sink\<close>

text \<open>
  \<open>SectionId\<close> is a scoped enumeration over \<open>u32\<close>. The twelve enumerators that
  \<open>kSectionOrder\<close> names are constructors of their own; every other value the
  enumeration can hold (the tests build \<open>static_cast<SectionId>(100)\<close>) is
  \<open>SectionId_Other\<close> with its underlying integer.
\<close>

datatype SectionId =
    SectionId_Type
  | SectionId_Import
  | SectionId_Function
  | SectionId_Table
  | SectionId_Memory
  | SectionId_Global
  | SectionId_Export
  | SectionId_Start
  | SectionId_Element
  | SectionId_DataCount
  | SectionId_Code
  | SectionId_Data
  | SectionId_Other nat

type_synonym SpanU8 = "8 word list"

text \<open>A section is a known section (id and contents) or a custom section (name and contents).\<close>

datatype Section =
    KnownSection SectionId SpanU8
  | CustomSection string SpanU8

fun is_known :: "Section \<Rightarrow> bool" where
  "is_known (KnownSection i d) = True"
| "is_known (CustomSection n d) = False"

fun section_data :: "Section \<Rightarrow> SpanU8" where
  "section_data (KnownSection i d) = d"
| "section_data (CustomSection n d) = d"

datatype Result = Ok | Fail

text \<open>
  \<open>ErrorsBasic\<close> prints every error it is given. The sink is the list of the errors
  reported so far, oldest first, each with the span it was reported at.
\<close>

type_synonym Errors = "(SpanU8 \<times> string) list"

definition OnError :: "SpanU8 \<Rightarrow> string \<Rightarrow> Errors \<Rightarrow> Errors" where
  "OnError pos message errs = errs @ [(pos, message)]"

text \<open>
  The visitor holds the validation context (of a type \<open>'c\<close> that validate.cc does not
  look into), the error sink and the id of the last known section it accepted.
\<close>

record 'c Visitor =
  valid_context :: 'c
  errors :: Errors
  last_section_id :: "SectionId option"

definition Visitor_init :: "'c \<Rightarrow> Errors \<Rightarrow> 'c Visitor" where
  "Visitor_init ctx errs = \<lparr>valid_context = ctx, errors = errs, last_section_id = None\<rparr>"

subsection \<open>OnSection\<close>

definition kSectionOrder :: "SectionId list" where
  "kSectionOrder =
    [SectionId_Type, SectionId_Import, SectionId_Function, SectionId_Table,
     SectionId_Memory, SectionId_Global, SectionId_Export, SectionId_Start,
     SectionId_Element, SectionId_DataCount, SectionId_Code, SectionId_Data]"

text \<open>\<open>std::find\<close> followed by the distance from \<open>begin()\<close>; \<open>None\<close> is \<open>end()\<close>.\<close>

fun find_from :: "nat \<Rightarrow> 'a \<Rightarrow> 'a list \<Rightarrow> nat option" where
  "find_from k x [] = None"
| "find_from k x (y # ys) = (if y = x then Some k else find_from (Suc k) x ys)"

definition position :: "SectionId \<Rightarrow> nat option" where
  "position i = find_from 0 i kSectionOrder"

text \<open>
  The lambda \<open>get_order\<close>: the position of the id in \<open>kSectionOrder\<close>, or an
  "Unknown section id" error at the current section and \<open>nullopt\<close>. The formatter of
  \<open>SectionId\<close> is not part of validate.cc and is the parameter \<open>fmt\<close>.
\<close>

definition get_order ::
  "(SectionId \<Rightarrow> string) \<Rightarrow> Section \<Rightarrow> SectionId \<Rightarrow> Errors \<Rightarrow> nat option \<times> Errors" where
  "get_order fmt section i errs =
    (case position i of
       None \<Rightarrow>
         (None, OnError (section_data section)
                  (''Unknown section id: '' @ fmt i @ [CHR 0x0A]) errs)
     | Some k \<Rightarrow> (Some k, errs))"

text \<open>\<open>operator>=\<close> of \<open>std::optional\<close>: an empty optional is below every value.\<close>

fun optional_ge :: "nat option \<Rightarrow> nat option \<Rightarrow> bool" where
  "optional_ge lhs None = True"
| "optional_ge None (Some r) = False"
| "optional_ge (Some l) (Some r) = (l \<ge> r)"

definition OnSection ::
  "(SectionId \<Rightarrow> string) \<Rightarrow> Section \<Rightarrow> 'c Visitor \<Rightarrow> Result \<times> 'c Visitor" where
  "OnSection fmt section v =
    (case section of
       CustomSection n d \<Rightarrow> (Ok, v)
     | KnownSection i d \<Rightarrow>
        (let (order, errs1) = get_order fmt section i (errors v) in
         case last_section_id v of
           None \<Rightarrow> (Ok, v\<lparr>errors := errs1, last_section_id := Some i\<rparr>)
         | Some prev \<Rightarrow>
            (let (last_order, errs2) = get_order fmt section prev errs1 in
             if optional_ge last_order order
             then (Fail, v\<lparr>errors := OnError (section_data section)
                              (''Section out of order: '' @ fmt i @
                               '' cannot occur after '' @ fmt prev @ [CHR 0x0A]) errs2\<rparr>)
             else (Ok, v\<lparr>errors := errs2, last_section_id := Some i\<rparr>))))"

text \<open>
  The sections of a module reach one visitor one after the other, in file order.
  \<open>deliver\<close> is the visitor after a run of such calls; \<open>sections_pass\<close> says that every
  call of the run returned \<open>Ok\<close>.
\<close>

fun deliver :: "(SectionId \<Rightarrow> string) \<Rightarrow> Section list \<Rightarrow> 'c Visitor \<Rightarrow> 'c Visitor" where
  "deliver fmt [] v = v"
| "deliver fmt (s # ss) v = deliver fmt ss (snd (OnSection fmt s v))"

fun sections_pass :: "(SectionId \<Rightarrow> string) \<Rightarrow> Section list \<Rightarrow> 'c Visitor \<Rightarrow> bool" where
  "sections_pass fmt [] v = True"
| "sections_pass fmt (s # ss) v =
    (case OnSection fmt s v of
       (Ok, v') \<Rightarrow> sections_pass fmt ss v'
     | (Fail, v') \<Rightarrow> False)"

fun known_ids :: "Section list \<Rightarrow> SectionId list" where
  "known_ids [] = []"
| "known_ids (KnownSection i d # ss) = i # known_ids ss"
| "known_ids (CustomSection n d # ss) = known_ids ss"

text \<open>
  Whether a section seen before, at position \<open>p\<close>, lies strictly before a section at
  position \<open>q\<close> of the canonical order. An id outside the order has no position: it
  precedes every id of the order and nothing precedes it.
\<close>

fun strictly_earlier :: "nat option \<Rightarrow> nat option \<Rightarrow> bool" where
  "strictly_earlier (Some p) (Some q) = (p < q)"
| "strictly_earlier None (Some q) = True"
| "strictly_earlier p None = False"

text \<open>
  A formatter for the concrete runs below; the tests print \<open>SectionId::Type\<close> as
  \<open>type\<close>.
\<close>

fun section_name :: "SectionId \<Rightarrow> string" where
  "section_name SectionId_Type = ''type''"
| "section_name SectionId_Import = ''import''"
| "section_name SectionId_Function = ''function''"
| "section_name SectionId_Table = ''table''"
| "section_name SectionId_Memory = ''memory''"
| "section_name SectionId_Global = ''global''"
| "section_name SectionId_Export = ''export''"
| "section_name SectionId_Start = ''start''"
| "section_name SectionId_Element = ''element''"
| "section_name SectionId_DataCount = ''datacount''"
| "section_name SectionId_Code = ''code''"
| "section_name SectionId_Data = ''data''"
| "section_name (SectionId_Other n) = ''other''"

text \<open>Positions as numbers, with 0 for an id outside the order.\<close>

fun rank :: "nat option \<Rightarrow> nat" where
  "rank None = 0"
| "rank (Some k) = Suc k"

subsection \<open>The callbacks of the entries\<close>










subsection \<open>Run and Main\<close>













section \<open>The text writer (include/wasp/text/write.h)\<close>

subsection \<open>The formatting context\<close>

text \<open>\<open>Base\<close> comes from text/numeric.h; write.h names \<open>Base::Decimal\<close>.\<close>

datatype Base = Decimal | Hex

record WriteContext =
  separator :: string
  indent :: string
  base :: Base

definition WriteContext_init :: WriteContext where
  "WriteContext_init = \<lparr>separator = [], indent = [CHR 0x0A], base = Decimal\<rparr>"

definition ClearSeparator :: "WriteContext \<Rightarrow> WriteContext" where
  "ClearSeparator c = c\<lparr>separator := []\<rparr>"

definition Space :: "WriteContext \<Rightarrow> WriteContext" where
  "Space c = c\<lparr>separator := '' ''\<rparr>"


definition Indent :: "WriteContext \<Rightarrow> WriteContext" where
  "Indent c = c\<lparr>indent := indent c @ ''  ''\<rparr>"

text \<open>
  \<open>indent.erase(indent.size() - 2)\<close>: on a string shorter than two characters the
  unsigned index wraps around beyond \<open>size()\<close> and \<open>erase\<close> throws
  \<open>std::out_of_range\<close>; otherwise everything from that index on is removed.
\<close>

datatype write_error = out_of_range

definition Dedent :: "WriteContext \<Rightarrow> write_error + WriteContext" where
  "Dedent c =
    (if length (indent c) < 2 then Inl out_of_range
     else Inr (c\<lparr>indent := take (length (indent c) - 2) (indent c)\<rparr>))"

subsection \<open>Separators, tokens and parentheses\<close>

text \<open>
  A writer takes the context and the output iterator and returns both; the iterator is
  the text written so far.
\<close>

type_synonym wstate = "WriteContext \<times> string"

fun in_context :: "(WriteContext \<Rightarrow> WriteContext) \<Rightarrow> wstate \<Rightarrow> wstate" where
  "in_context f (c, out) = (f c, out)"

fun WriteRaw :: "string \<Rightarrow> wstate \<Rightarrow> wstate" where
  "WriteRaw v (c, out) = (c, out @ v)"

fun WriteSeparator :: "wstate \<Rightarrow> wstate" where
  "WriteSeparator (c, out) = in_context ClearSeparator (WriteRaw (separator c) (c, out))"

text \<open>\<open>WriteFormat\<close> gets the formatted text \<open>format("{}", value)\<close> as its argument.\<close>

definition WriteFormat :: "string \<Rightarrow> wstate \<Rightarrow> wstate" where
  "WriteFormat formatted s =
    (let s = WriteSeparator s;
         s = WriteRaw formatted s
     in in_context Space s)"

definition WriteLpar :: "wstate \<Rightarrow> wstate" where
  "WriteLpar s =
    (let s = WriteSeparator s
     in WriteRaw ''('' s)"

definition WriteLpar_name :: "string \<Rightarrow> wstate \<Rightarrow> wstate" where
  "WriteLpar_name name s =
    (let s = WriteLpar s;
         s = WriteRaw name s
     in in_context Space s)"

definition WriteRpar :: "wstate \<Rightarrow> wstate" where
  "WriteRpar s =
    (let s = in_context ClearSeparator s;
         s = WriteRaw '')'' s
     in in_context Space s)"

fun WriteRange :: "('a \<Rightarrow> wstate \<Rightarrow> wstate) \<Rightarrow> 'a list \<Rightarrow> wstate \<Rightarrow> wstate" where
  "WriteRange W [] s = s"
| "WriteRange W (x # xs) s = WriteRange W xs (W x s)"

definition WriteVector :: "('a \<Rightarrow> wstate \<Rightarrow> wstate) \<Rightarrow> 'a list \<Rightarrow> wstate \<Rightarrow> wstate" where
  "WriteVector W values s = WriteRange W values s"

fun Write_optional :: "('a \<Rightarrow> wstate \<Rightarrow> wstate) \<Rightarrow> 'a option \<Rightarrow> wstate \<Rightarrow> wstate" where
  "Write_optional W None s = s"
| "Write_optional W (Some v) s = W v s"

definition Write_string_view :: "string \<Rightarrow> wstate \<Rightarrow> wstate" where
  "Write_string_view v s =
    (let s = WriteSeparator s;
         s = WriteRaw v s
     in in_context Space s)"

subsection \<open>The structures of text/types.h that the writers below read\<close>

text \<open>
  The enumerations are declared outside write.h, which only formats them or compares
  them with the enumerators named here; every other enumerator is an \<open>Other\<close> value.
  A position \<open>At<T>\<close> is written as its value, so it is left out.
\<close>

datatype ValueType = I32 | I64 | F32 | F64 | V128 | ValueType_Other nat
datatype ReferenceType = Funcref | ReferenceType_Other nat
datatype ExternalKind =
  ExternalKind_Function | ExternalKind_Table | ExternalKind_Memory | ExternalKind_Global |
  ExternalKind_Event
datatype Opcode =
  Opcode_Block | Opcode_Loop | Opcode_If | Opcode_Else | Opcode_End | Opcode_Try |
  Opcode_Catch | Opcode_Let | Opcode_Other nat
datatype Shared = Shared_No | Shared_Yes
datatype SegmentType = Active | Passive | Declared

type_synonym u8 = "8 word"
type_synonym u32 = "32 word"

text \<open>
  The functions of the formatting library and of text/numeric.h, which write.h calls
  and does not define. Floating-point values and \<open>v128\<close> are carried as their bits
  (a \<open>v128\<close> as its four 32-bit lanes).
\<close>

record Formatters =
  format_ValueType :: "ValueType \<Rightarrow> string"
  format_ReferenceType :: "ReferenceType \<Rightarrow> string"
  format_ExternalKind :: "ExternalKind \<Rightarrow> string"
  format_Opcode :: "Opcode \<Rightarrow> string"
  NatToStr_u32 :: "u32 \<Rightarrow> Base \<Rightarrow> string"
  IntToStr_u8 :: "u8 \<Rightarrow> Base \<Rightarrow> string"
  IntToStr_u32 :: "u32 \<Rightarrow> Base \<Rightarrow> string"
  IntToStr_s32 :: "32 word \<Rightarrow> Base \<Rightarrow> string"
  IntToStr_s64 :: "64 word \<Rightarrow> Base \<Rightarrow> string"
  FloatToStr_f32 :: "32 word \<Rightarrow> Base \<Rightarrow> string"
  FloatToStr_f64 :: "64 word \<Rightarrow> Base \<Rightarrow> string"

datatype Var = Var_u32 u32 | Var_string_view string

type_synonym BindVar = string
type_synonym v128 = "u32 list"

record Text =
  Text_text :: string
  Text_byte_size :: u32

record FunctionType =
  FunctionType_params :: "ValueType list"
  FunctionType_results :: "ValueType list"

record FunctionTypeUse =
  FunctionTypeUse_type_use :: "Var option"
  FunctionTypeUse_type :: FunctionType

record BlockImmediate =
  BlockImmediate_label :: "BindVar option"
  BlockImmediate_type :: FunctionTypeUse

record BrOnExnImmediate =
  BrOnExnImmediate_target :: Var
  BrOnExnImmediate_event :: Var

record BrTableImmediate =
  BrTableImmediate_targets :: "Var list"
  BrTableImmediate_default_target :: Var

record CallIndirectImmediate =
  CallIndirectImmediate_table :: "Var option"
  CallIndirectImmediate_type :: FunctionTypeUse

record CopyImmediate =
  CopyImmediate_dst :: "Var option"
  CopyImmediate_src :: "Var option"

record InitImmediate =
  InitImmediate_segment :: Var
  InitImmediate_dst :: "Var option"

record MemArgImmediate =
  MemArgImmediate_align :: "u32 option"
  MemArgImmediate_offset :: "u32 option"

text \<open>The alternatives of an instruction's immediate, in the order of the switch.\<close>

datatype Immediate =
    Immediate_monostate
  | Immediate_s32 "32 word"
  | Immediate_s64 "64 word"
  | Immediate_f32 "32 word"
  | Immediate_f64 "64 word"
  | Immediate_v128 v128
  | Immediate_Var Var
  | Immediate_Block BlockImmediate
  | Immediate_BrOnExn BrOnExnImmediate
  | Immediate_BrTable BrTableImmediate
  | Immediate_CallIndirect CallIndirectImmediate
  | Immediate_Copy CopyImmediate
  | Immediate_Init InitImmediate
  | Immediate_MemArg MemArgImmediate
  | Immediate_ReferenceType ReferenceType
  | Immediate_Select "ValueType list"
  | Immediate_Shuffle "u8 list"
  | Immediate_SimdLane u8

record Instruction =
  Instruction_opcode :: Opcode
  Instruction_immediate :: Immediate

type_synonym InstructionList = "Instruction list"

record Limits =
  Limits_min :: u32
  Limits_max :: "u32 option"
  Limits_shared :: Shared

record TableType =
  TableType_limits :: Limits
  TableType_elemtype :: ReferenceType

record TableDesc =
  TableDesc_name :: "BindVar option"
  TableDesc_type :: TableType

record InlineImport =
  InlineImport_module :: Text
  InlineImport_name :: Text

record InlineExport =
  InlineExport_name :: Text

record ConstantExpression =
  ConstantExpression_instructions :: InstructionList

record ElementExpression =
  ElementExpression_instructions :: InstructionList

record ElementListWithExpressions =
  ElementListWithExpressions_elemtype :: ReferenceType
  ElementListWithExpressions_list :: "ElementExpression list"

record ElementListWithVars =
  ElementListWithVars_kind :: ExternalKind
  ElementListWithVars_list :: "Var list"

datatype ElementList =
    ElementList_WithExpressions ElementListWithExpressions
  | ElementList_WithVars ElementListWithVars

record Table =
  Table_desc :: TableDesc
  Table_import :: "InlineImport option"
  Table_exports :: "InlineExport list"
  Table_elements :: "ElementList option"

record ElementSegment =
  ElementSegment_name :: "BindVar option"
  ElementSegment_type :: SegmentType
  ElementSegment_table :: "Var option"
  ElementSegment_offset :: "ConstantExpression option"
  ElementSegment_elements :: ElementList

subsection \<open>Writers of values\<close>

definition WriteNat :: "Formatters \<Rightarrow> u32 \<Rightarrow> wstate \<Rightarrow> wstate" where
  "WriteNat F v s = Write_string_view (NatToStr_u32 F v (base (fst s))) s"

definition Write_u8 :: "Formatters \<Rightarrow> u8 \<Rightarrow> wstate \<Rightarrow> wstate" where
  "Write_u8 F v s = Write_string_view (IntToStr_u8 F v (base (fst s))) s"

definition Write_u32 :: "Formatters \<Rightarrow> u32 \<Rightarrow> wstate \<Rightarrow> wstate" where
  "Write_u32 F v s = Write_string_view (IntToStr_u32 F v (base (fst s))) s"

definition Write_s32 :: "Formatters \<Rightarrow> 32 word \<Rightarrow> wstate \<Rightarrow> wstate" where
  "Write_s32 F v s = Write_string_view (IntToStr_s32 F v (base (fst s))) s"

definition Write_s64 :: "Formatters \<Rightarrow> 64 word \<Rightarrow> wstate \<Rightarrow> wstate" where
  "Write_s64 F v s = Write_string_view (IntToStr_s64 F v (base (fst s))) s"

definition Write_f32 :: "Formatters \<Rightarrow> 32 word \<Rightarrow> wstate \<Rightarrow> wstate" where
  "Write_f32 F v s = Write_string_view (FloatToStr_f32 F v (base (fst s))) s"

definition Write_f64 :: "Formatters \<Rightarrow> 64 word \<Rightarrow> wstate \<Rightarrow> wstate" where
  "Write_f64 F v s = Write_string_view (FloatToStr_f64 F v (base (fst s))) s"

fun Write_Var :: "Formatters \<Rightarrow> Var \<Rightarrow> wstate \<Rightarrow> wstate" where
  "Write_Var F (Var_u32 v) s = WriteNat F v s"
| "Write_Var F (Var_string_view v) s = Write_string_view v s"

definition Write_VarList :: "Formatters \<Rightarrow> Var list \<Rightarrow> wstate \<Rightarrow> wstate" where
  "Write_VarList F values s = WriteVector (Write_Var F) values s"

definition Write_Text :: "Text \<Rightarrow> wstate \<Rightarrow> wstate" where
  "Write_Text v s = Write_string_view (Text_text v) s"

definition Write_ValueType :: "Formatters \<Rightarrow> ValueType \<Rightarrow> wstate \<Rightarrow> wstate" where
  "Write_ValueType F v s = WriteFormat (format_ValueType F v) s"

definition Write_ValueTypeList :: "Formatters \<Rightarrow> ValueType list \<Rightarrow> wstate \<Rightarrow> wstate" where
  "Write_ValueTypeList F values s = WriteVector (Write_ValueType F) values s"

definition Write_ValueTypeList_name ::
  "Formatters \<Rightarrow> ValueType list \<Rightarrow> string \<Rightarrow> wstate \<Rightarrow> wstate" where
  "Write_ValueTypeList_name F values name s =
    (if values \<noteq> [] then
       (let s = WriteLpar_name name s;
            s = Write_ValueTypeList F values s
        in WriteRpar s)
     else s)"

definition Write_FunctionType :: "Formatters \<Rightarrow> FunctionType \<Rightarrow> wstate \<Rightarrow> wstate" where
  "Write_FunctionType F v s =
    (let s = Write_ValueTypeList_name F (FunctionType_params v) ''param'' s
     in Write_ValueTypeList_name F (FunctionType_results v) ''result'' s)"

definition WriteTypeUse :: "Formatters \<Rightarrow> Var option \<Rightarrow> wstate \<Rightarrow> wstate" where
  "WriteTypeUse F v s =
    (case v of
       Some var \<Rightarrow>
         (let s = WriteLpar_name ''type'' s;
              s = Write_Var F var s
          in WriteRpar s)
     | None \<Rightarrow> s)"

definition Write_FunctionTypeUse :: "Formatters \<Rightarrow> FunctionTypeUse \<Rightarrow> wstate \<Rightarrow> wstate" where
  "Write_FunctionTypeUse F v s =
    (let s = WriteTypeUse F (FunctionTypeUse_type_use v) s
     in Write_FunctionType F (FunctionTypeUse_type v) s)"

definition Write_v128 :: "Formatters \<Rightarrow> v128 \<Rightarrow> wstate \<Rightarrow> wstate" where
  "Write_v128 F v s =
    (let s = Write_string_view ''i32x4'' s
     in WriteRange (Write_u32 F) v s)"

subsection \<open>Writers of immediates and instructions\<close>

definition Write_BlockImmediate :: "Formatters \<Rightarrow> BlockImmediate \<Rightarrow> wstate \<Rightarrow> wstate" where
  "Write_BlockImmediate F v s =
    (let s = Write_optional Write_string_view (BlockImmediate_label v) s
     in Write_FunctionTypeUse F (BlockImmediate_type v) s)"

definition Write_BrOnExnImmediate ::
  "Formatters \<Rightarrow> BrOnExnImmediate \<Rightarrow> wstate \<Rightarrow> wstate" where
  "Write_BrOnExnImmediate F v s =
    (let s = Write_Var F (BrOnExnImmediate_target v) s
     in Write_Var F (BrOnExnImmediate_event v) s)"

definition Write_BrTableImmediate ::
  "Formatters \<Rightarrow> BrTableImmediate \<Rightarrow> wstate \<Rightarrow> wstate" where
  "Write_BrTableImmediate F v s =
    (let s = Write_VarList F (BrTableImmediate_targets v) s
     in Write_Var F (BrTableImmediate_default_target v) s)"

definition Write_CallIndirectImmediate ::
  "Formatters \<Rightarrow> CallIndirectImmediate \<Rightarrow> wstate \<Rightarrow> wstate" where
  "Write_CallIndirectImmediate F v s =
    (let s = Write_optional (Write_Var F) (CallIndirectImmediate_table v) s
     in Write_FunctionTypeUse F (CallIndirectImmediate_type v) s)"

definition Write_CopyImmediate :: "Formatters \<Rightarrow> CopyImmediate \<Rightarrow> wstate \<Rightarrow> wstate" where
  "Write_CopyImmediate F v s =
    (let s = Write_optional (Write_Var F) (CopyImmediate_dst v) s
     in Write_optional (Write_Var F) (CopyImmediate_src v) s)"

definition Write_InitImmediate :: "Formatters \<Rightarrow> InitImmediate \<Rightarrow> wstate \<Rightarrow> wstate" where
  "Write_InitImmediate F v s =
    (let s = (case InitImmediate_dst v of
                Some dst \<Rightarrow> Write_Var F dst s
              | None \<Rightarrow> s)
     in Write_Var F (InitImmediate_segment v) s)"

definition Write_MemArgImmediate ::
  "Formatters \<Rightarrow> MemArgImmediate \<Rightarrow> wstate \<Rightarrow> wstate" where
  "Write_MemArgImmediate F v s =
    (let s = (case MemArgImmediate_offset v of
                Some offset \<Rightarrow>
                  (let s = Write_string_view ''offset='' s;
                       s = in_context ClearSeparator s
                   in Write_u32 F offset s)
              | None \<Rightarrow> s)
     in case MemArgImmediate_align v of
          Some align \<Rightarrow>
            (let s = Write_string_view ''align='' s;
                 s = in_context ClearSeparator s
             in Write_u32 F align s)
        | None \<Rightarrow> s)"

definition Write_ShuffleImmediate :: "Formatters \<Rightarrow> u8 list \<Rightarrow> wstate \<Rightarrow> wstate" where
  "Write_ShuffleImmediate F v s = WriteRange (Write_u8 F) v s"

definition Write_Opcode :: "Formatters \<Rightarrow> Opcode \<Rightarrow> wstate \<Rightarrow> wstate" where
  "Write_Opcode F v s = WriteFormat (format_Opcode F v) s"

definition Write_ReferenceType :: "Formatters \<Rightarrow> ReferenceType \<Rightarrow> wstate \<Rightarrow> wstate" where
  "Write_ReferenceType F v s = WriteFormat (format_ReferenceType F v) s"

fun Write_Immediate :: "Formatters \<Rightarrow> Immediate \<Rightarrow> wstate \<Rightarrow> wstate" where
  "Write_Immediate F Immediate_monostate s = s"
| "Write_Immediate F (Immediate_s32 v) s = Write_s32 F v s"
| "Write_Immediate F (Immediate_s64 v) s = Write_s64 F v s"
| "Write_Immediate F (Immediate_f32 v) s = Write_f32 F v s"
| "Write_Immediate F (Immediate_f64 v) s = Write_f64 F v s"
| "Write_Immediate F (Immediate_v128 v) s = Write_v128 F v s"
| "Write_Immediate F (Immediate_Var v) s = Write_Var F v s"
| "Write_Immediate F (Immediate_Block v) s = Write_BlockImmediate F v s"
| "Write_Immediate F (Immediate_BrOnExn v) s = Write_BrOnExnImmediate F v s"
| "Write_Immediate F (Immediate_BrTable v) s = Write_BrTableImmediate F v s"
| "Write_Immediate F (Immediate_CallIndirect v) s = Write_CallIndirectImmediate F v s"
| "Write_Immediate F (Immediate_Copy v) s = Write_CopyImmediate F v s"
| "Write_Immediate F (Immediate_Init v) s = Write_InitImmediate F v s"
| "Write_Immediate F (Immediate_MemArg v) s = Write_MemArgImmediate F v s"
| "Write_Immediate F (Immediate_ReferenceType v) s = Write_ReferenceType F v s"
| "Write_Immediate F (Immediate_Select v) s = Write_ValueTypeList F v s"
| "Write_Immediate F (Immediate_Shuffle v) s = Write_ShuffleImmediate F v s"
| "Write_Immediate F (Immediate_SimdLane v) s = Write_u8 F v s"

definition Write_Instruction :: "Formatters \<Rightarrow> Instruction \<Rightarrow> wstate \<Rightarrow> wstate" where
  "Write_Instruction F v s =
    (let s = Write_Opcode F (Instruction_opcode v) s
     in Write_Immediate F (Instruction_immediate v) s)"

definition Write_InstructionList :: "Formatters \<Rightarrow> InstructionList \<Rightarrow> wstate \<Rightarrow> wstate" where
  "Write_InstructionList F values s = WriteVector (Write_Instruction F) values s"



subsection \<open>Writers of tables and element segments\<close>

definition Write_Limits :: "Formatters \<Rightarrow> Limits \<Rightarrow> wstate \<Rightarrow> wstate" where
  "Write_Limits F v s =
    (let s = Write_u32 F (Limits_min v) s;
         s = (case Limits_max v of
                Some m \<Rightarrow> Write_u32 F m s
              | None \<Rightarrow> s)
     in if Limits_shared v = Shared_Yes then Write_string_view ''shared'' s else s)"

definition Write_TableType :: "Formatters \<Rightarrow> TableType \<Rightarrow> wstate \<Rightarrow> wstate" where
  "Write_TableType F v s =
    (let s = Write_Limits F (TableType_limits v) s
     in WriteFormat (format_ReferenceType F (TableType_elemtype v)) s)"

definition Write_InlineImport :: "InlineImport \<Rightarrow> wstate \<Rightarrow> wstate" where
  "Write_InlineImport v s =
    (let s = WriteLpar_name ''import'' s;
         s = Write_Text (InlineImport_module v) s;
         s = Write_Text (InlineImport_name v) s
     in WriteRpar s)"

definition Write_InlineExport :: "InlineExport \<Rightarrow> wstate \<Rightarrow> wstate" where
  "Write_InlineExport v s =
    (let s = WriteLpar_name ''export'' s;
         s = Write_Text (InlineExport_name v) s
     in WriteRpar s)"

definition Write_InlineExportList :: "InlineExport list \<Rightarrow> wstate \<Rightarrow> wstate" where
  "Write_InlineExportList values s = WriteVector Write_InlineExport values s"

text \<open>The inner loop of the writer of an element expression list, then the outer one.\<close>

fun Write_ElementExpression_parens ::
  "Formatters \<Rightarrow> InstructionList \<Rightarrow> wstate \<Rightarrow> wstate" where
  "Write_ElementExpression_parens F [] s = s"
| "Write_ElementExpression_parens F (instr # instrs) s =
    (let s = WriteLpar s;
         s = Write_Instruction F instr s;
         s = WriteRpar s;
         s = in_context Space s
     in Write_ElementExpression_parens F instrs s)"

fun Write_ElementExpressionList ::
  "Formatters \<Rightarrow> ElementExpression list \<Rightarrow> wstate \<Rightarrow> wstate" where
  "Write_ElementExpressionList F [] s = s"
| "Write_ElementExpressionList F (elem_expr # elem_exprs) s =
    Write_ElementExpressionList F elem_exprs
      (Write_ElementExpression_parens F (ElementExpression_instructions elem_expr) s)"

definition Write_ElementListWithExpressions ::
  "Formatters \<Rightarrow> ElementListWithExpressions \<Rightarrow> wstate \<Rightarrow> wstate" where
  "Write_ElementListWithExpressions F v s =
    (let s = Write_ReferenceType F (ElementListWithExpressions_elemtype v) s
     in Write_ElementExpressionList F (ElementListWithExpressions_list v) s)"

definition Write_ExternalKind :: "Formatters \<Rightarrow> ExternalKind \<Rightarrow> wstate \<Rightarrow> wstate" where
  "Write_ExternalKind F v s = WriteFormat (format_ExternalKind F v) s"

definition Write_ElementListWithVars ::
  "Formatters \<Rightarrow> ElementListWithVars \<Rightarrow> wstate \<Rightarrow> wstate" where
  "Write_ElementListWithVars F v s =
    (let s = Write_ExternalKind F (ElementListWithVars_kind v) s
     in Write_VarList F (ElementListWithVars_list v) s)"

fun Write_ElementList :: "Formatters \<Rightarrow> ElementList \<Rightarrow> wstate \<Rightarrow> wstate" where
  "Write_ElementList F (ElementList_WithVars v) s = Write_ElementListWithVars F v s"
| "Write_ElementList F (ElementList_WithExpressions v) s =
     Write_ElementListWithExpressions F v s"

definition Write_Table :: "Formatters \<Rightarrow> Table \<Rightarrow> wstate \<Rightarrow> wstate" where
  "Write_Table F v s =
    (let s = WriteLpar_name ''table'' s;
         s = Write_optional Write_string_view (TableDesc_name (Table_desc v)) s;
         s = Write_InlineExportList (Table_exports v) s;
         s = (case Table_import v of
                Some import \<Rightarrow>
                  (let s = Write_InlineImport import s
                   in Write_TableType F (TableDesc_type (Table_desc v)) s)
              | None \<Rightarrow>
                 (case Table_elements v of
                    Some elements \<Rightarrow>
                      (let s = Write_ReferenceType F
                                 (TableType_elemtype (TableDesc_type (Table_desc v))) s;
                           s = WriteLpar_name ''elem'' s;
                           s = (case elements of
                                  ElementList_WithVars l \<Rightarrow>
                                    Write_VarList F (ElementListWithVars_list l) s
                                | ElementList_WithExpressions l \<Rightarrow>
                                    Write_ElementExpressionList F
                                      (ElementListWithExpressions_list l) s)
                       in WriteRpar s)
                  | None \<Rightarrow> Write_TableType F (TableDesc_type (Table_desc v)) s))
     in WriteRpar s)"

definition Write_ConstantExpression ::
  "Formatters \<Rightarrow> ConstantExpression \<Rightarrow> wstate \<Rightarrow> wstate" where
  "Write_ConstantExpression F v s =
    Write_InstructionList F (ConstantExpression_instructions v) s"

definition Write_ElementSegment :: "Formatters \<Rightarrow> ElementSegment \<Rightarrow> wstate \<Rightarrow> wstate" where
  "Write_ElementSegment F v s =
    (let s = WriteLpar_name ''elem'' s;
         s = Write_optional Write_string_view (ElementSegment_name v) s;
         s = (case ElementSegment_type v of
                Active \<Rightarrow>
                  (let s = (case ElementSegment_table v of
                              Some table \<Rightarrow>
                                (let s = WriteLpar_name ''table'' s;
                                     s = Write_Var F table s
                                 in WriteRpar s)
                            | None \<Rightarrow> s);
                       s = (case ElementSegment_offset v of
                              Some offset \<Rightarrow>
                                (let s = WriteLpar_name ''offset'' s;
                                     s = Write_ConstantExpression F offset s
                                 in WriteRpar s)
                            | None \<Rightarrow> s)
                   in case ElementSegment_elements v of
                        ElementList_WithVars element_vars \<Rightarrow>
                          (let s = (if ElementListWithVars_kind element_vars \<noteq>
                                         ExternalKind_Function \<or>
                                       ElementSegment_table v \<noteq> None \<or>
                                       ElementSegment_name v \<noteq> None
                                    then Write_ExternalKind F
                                           (ElementListWithVars_kind element_vars) s
                                    else s)
                           in Write_VarList F (ElementListWithVars_list element_vars) s)
                      | ElementList_WithExpressions l \<Rightarrow>
                          Write_ElementListWithExpressions F l s)
              | Passive \<Rightarrow> Write_ElementList F (ElementSegment_elements v) s
              | Declared \<Rightarrow>
                  (let s = Write_string_view ''declare'' s
                   in Write_ElementList F (ElementSegment_elements v) s))
     in WriteRpar s)"

subsection \<open>What a writer writes\<close>

text \<open>
  \<open>emits W t\<close>: the writer \<open>W\<close> writes the pending separator and then the text
  \<open>t\<close> (which may depend on the numeric base), and leaves a space pending.
  \<open>silent W\<close>: the writer writes nothing and leaves the context as it was.
  \<open>text_of W\<close> is what \<open>W\<close> writes when nothing is pending.
\<close>

definition emits :: "(wstate \<Rightarrow> wstate) \<Rightarrow> (Base \<Rightarrow> string) \<Rightarrow> bool" where
  "emits W t \<longleftrightarrow>
    (\<forall>c out. W (c, out) = (c\<lparr>separator := '' ''\<rparr>, out @ separator c @ t (base c)))"

definition silent :: "(wstate \<Rightarrow> wstate) \<Rightarrow> bool" where
  "silent W \<longleftrightarrow> (\<forall>s. W s = s)"

definition regular :: "(wstate \<Rightarrow> wstate) \<Rightarrow> bool" where
  "regular W \<longleftrightarrow> silent W \<or> (\<exists>t. emits W t)"

definition text_of :: "(wstate \<Rightarrow> wstate) \<Rightarrow> Base \<Rightarrow> string" where
  "text_of W b = snd (W (\<lparr>separator = [], indent = [], base = b\<rparr>, []))"

text \<open>What a variable and an instruction are written as.\<close>

fun Var_text :: "Formatters \<Rightarrow> Var \<Rightarrow> Base \<Rightarrow> string" where
  "Var_text F (Var_u32 v) b = NatToStr_u32 F v b"
| "Var_text F (Var_string_view v) b = v"

definition Instruction_text :: "Formatters \<Rightarrow> Instruction \<Rightarrow> Base \<Rightarrow> string" where
  "Instruction_text F v = text_of (Write_Instruction F v)"

text \<open>
  The pieces of the text of a table and of an element segment. After the opening
  keyword a space is pending, so each piece starts with the space that precedes it.
\<close>

definition name_text :: "BindVar option \<Rightarrow> string" where
  "name_text n = (case n of None \<Rightarrow> [] | Some x \<Rightarrow> '' '' @ x)"

definition vars_text :: "Formatters \<Rightarrow> Base \<Rightarrow> Var list \<Rightarrow> string" where
  "vars_text F b vs = concat (map (\<lambda>x. '' '' @ Var_text F x b) vs)"

definition instructions_text :: "Formatters \<Rightarrow> Base \<Rightarrow> InstructionList \<Rightarrow> string" where
  "instructions_text F b is = concat (map (\<lambda>i. '' '' @ Instruction_text F i b) is)"

definition exports_text :: "InlineExport list \<Rightarrow> string" where
  "exports_text es =
     concat (map (\<lambda>e. '' '' @ ''(export '' @ Text_text (InlineExport_name e) @ '')'') es)"

definition import_text :: "InlineImport \<Rightarrow> string" where
  "import_text i =
     '' (import '' @ Text_text (InlineImport_module i) @ '' '' @
       Text_text (InlineImport_name i) @ '')''"

definition limits_text :: "Formatters \<Rightarrow> Base \<Rightarrow> Limits \<Rightarrow> string" where
  "limits_text F b l =
     IntToStr_u32 F (Limits_min l) b @
     (case Limits_max l of None \<Rightarrow> [] | Some m \<Rightarrow> '' '' @ IntToStr_u32 F m b) @
     (if Limits_shared l = Shared_Yes then '' shared'' else [])"

definition parenthesized_text :: "Formatters \<Rightarrow> Base \<Rightarrow> InstructionList \<Rightarrow> string" where
  "parenthesized_text F b is =
     concat (map (\<lambda>i. '' ('' @ Instruction_text F i b @ '')'') is)"

definition element_expressions_text ::
  "Formatters \<Rightarrow> Base \<Rightarrow> ElementExpression list \<Rightarrow> string" where
  "element_expressions_text F b es =
     concat (map (\<lambda>e. parenthesized_text F b (ElementExpression_instructions e)) es)"

fun inline_elements_text :: "Formatters \<Rightarrow> Base \<Rightarrow> ElementList \<Rightarrow> string" where
  "inline_elements_text F b (ElementList_WithVars l) =
     vars_text F b (ElementListWithVars_list l)"
| "inline_elements_text F b (ElementList_WithExpressions l) =
     element_expressions_text F b (ElementListWithExpressions_list l)"

definition table_use_text :: "Formatters \<Rightarrow> Base \<Rightarrow> Var option \<Rightarrow> string" where
  "table_use_text F b t =
     (case t of None \<Rightarrow> [] | Some v \<Rightarrow> '' (table '' @ Var_text F v b @ '')'')"

definition offset_text :: "Formatters \<Rightarrow> Base \<Rightarrow> ConstantExpression option \<Rightarrow> string" where
  "offset_text F b e =
     (case e of
        None \<Rightarrow> []
      | Some x \<Rightarrow>
          '' (offset'' @ instructions_text F b (ConstantExpression_instructions x) @ '')'')"





subsection \<open>Formatters for the concrete runs\<close>

text \<open>
  The formatting library is a parameter of the writers. The concrete runs below use the
  keywords of the text format and print a number below ten as its digit.
\<close>

definition digit_text :: "nat \<Rightarrow> string" where
  "digit_text n =
    (if n = 0 then ''0'' else if n = 1 then ''1'' else if n = 2 then ''2''
     else if n = 3 then ''3'' else if n = 4 then ''4'' else if n = 5 then ''5''
     else if n = 6 then ''6'' else if n = 7 then ''7'' else if n = 8 then ''8''
     else if n = 9 then ''9'' else ''#'')"

fun opcode_name :: "Opcode \<Rightarrow> string" where
  "opcode_name Opcode_Block = ''block''"
| "opcode_name Opcode_Loop = ''loop''"
| "opcode_name Opcode_If = ''if''"
| "opcode_name Opcode_Else = ''else''"
| "opcode_name Opcode_End = ''end''"
| "opcode_name Opcode_Try = ''try''"
| "opcode_name Opcode_Catch = ''catch''"
| "opcode_name Opcode_Let = ''let''"
| "opcode_name (Opcode_Other n) = (if n = 65 then ''i32.const'' else ''nop'')"

fun kind_name :: "ExternalKind \<Rightarrow> string" where
  "kind_name ExternalKind_Function = ''func''"
| "kind_name ExternalKind_Table = ''table''"
| "kind_name ExternalKind_Memory = ''memory''"
| "kind_name ExternalKind_Global = ''global''"
| "kind_name ExternalKind_Event = ''event''"

fun valtype_name :: "ValueType \<Rightarrow> string" where
  "valtype_name I32 = ''i32''"
| "valtype_name I64 = ''i64''"
| "valtype_name F32 = ''f32''"
| "valtype_name F64 = ''f64''"
| "valtype_name V128 = ''v128''"
| "valtype_name (ValueType_Other n) = ''other''"

fun reftype_name :: "ReferenceType \<Rightarrow> string" where
  "reftype_name Funcref = ''funcref''"
| "reftype_name (ReferenceType_Other n) = ''other''"

definition sample_formatters :: Formatters where
  "sample_formatters =
    \<lparr>format_ValueType = valtype_name,
     format_ReferenceType = reftype_name,
     format_ExternalKind = kind_name,
     format_Opcode = opcode_name,
     NatToStr_u32 = (\<lambda>v b. digit_text (unat v)),
     IntToStr_u8 = (\<lambda>v b. digit_text (unat v)),
     IntToStr_u32 = (\<lambda>v b. digit_text (unat v)),
     IntToStr_s32 = (\<lambda>v b. digit_text (unat v)),
     IntToStr_s64 = (\<lambda>v b. digit_text (unat v)),
     FloatToStr_f32 = (\<lambda>v b. digit_text (unat v)),
     FloatToStr_f64 = (\<lambda>v b. digit_text (unat v))\<rparr>"

definition sample_block :: Instruction where
  "sample_block =
    \<lparr>Instruction_opcode = Opcode_Block,
     Instruction_immediate = Immediate_Block
       \<lparr>BlockImmediate_label = None,
        BlockImmediate_type =
          \<lparr>FunctionTypeUse_type_use = None,
           FunctionTypeUse_type = \<lparr>FunctionType_params = [], FunctionType_results = []\<rparr>\<rparr>\<rparr>\<rparr>"

definition sample_plain :: "Opcode \<Rightarrow> Instruction" where
  "sample_plain opcode =
    \<lparr>Instruction_opcode = opcode, Instruction_immediate = Immediate_monostate\<rparr>"

definition sample_const :: "32 word \<Rightarrow> Instruction" where
  "sample_const n =
    \<lparr>Instruction_opcode = Opcode_Other 65, Instruction_immediate = Immediate_s32 n\<rparr>"

definition sample_segment :: "BindVar option \<Rightarrow> ElementSegment" where
  "sample_segment n =
    \<lparr>ElementSegment_name = n,
     ElementSegment_type = Active,
     ElementSegment_table = None,
     ElementSegment_offset =
       Some \<lparr>ConstantExpression_instructions = [sample_const 0]\<rparr>,
     ElementSegment_elements =
       ElementList_WithVars
         \<lparr>ElementListWithVars_kind = ExternalKind_Function,
          ElementListWithVars_list = [Var_u32 0, Var_string_view ''$f'']\<rparr>\<rparr>"

definition sample_table :: "ElementList option \<Rightarrow> Table" where
  "sample_table els =
    \<lparr>Table_desc =
       \<lparr>TableDesc_name = Some ''$t'',
        TableDesc_type =
          \<lparr>TableType_limits =
             \<lparr>Limits_min = 2, Limits_max = Some 2, Limits_shared = Shared_No\<rparr>,
           TableType_elemtype = Funcref\<rparr>\<rparr>,
     Table_import = None,
     Table_exports = [],
     Table_elements = els\<rparr>"

definition sample_elements :: ElementList where
  "sample_elements =
     ElementList_WithVars
       \<lparr>ElementListWithVars_kind = ExternalKind_Function,
        ElementListWithVars_list = [Var_u32 0, Var_u32 1]\<rparr>"

definition sample_import :: InlineImport where
  "sample_import =
     \<lparr>InlineImport_module = \<lparr>Text_text = ''m'', Text_byte_size = 1\<rparr>,
      InlineImport_name = \<lparr>Text_text = ''n'', Text_byte_size = 1\<rparr>\<rparr>"

section \<open>Section order: lemmas\<close>

lemma optional_ge_iff: "optional_ge a b \<longleftrightarrow> \<not> strictly_earlier a b"
  by (cases a; cases b) auto

lemma OnSection_custom: "OnSection fmt (CustomSection n d) v = (Ok, v)"
  by (simp add: OnSection_def)

lemma OnSection_known_result:
  "fst (OnSection fmt (KnownSection i d) v) = Ok \<longleftrightarrow>
     (\<forall>l. last_section_id v = Some l \<longrightarrow> strictly_earlier (position l) (position i))"
  by (auto simp: OnSection_def get_order_def optional_ge_iff Let_def
           split: option.splits prod.splits)

lemma OnSection_known_last:
  "last_section_id (snd (OnSection fmt (KnownSection i d) v)) =
     (if fst (OnSection fmt (KnownSection i d) v) = Ok then Some i else last_section_id v)"
  by (auto simp: OnSection_def get_order_def Let_def split: option.splits prod.splits)

lemma strictly_earlier_rank: "strictly_earlier a b \<longleftrightarrow> rank a < rank b"
  by (cases a; cases b) auto

lemma deliver_append: "deliver fmt (xs @ ys) v = deliver fmt ys (deliver fmt xs v)"
  by (induction xs arbitrary: v) auto

lemma known_ids_append: "known_ids (xs @ ys) = known_ids xs @ known_ids ys"
  by (induction xs rule: known_ids.induct) auto

lemma position_kSectionOrder: "map position kSectionOrder = map Some [0 ..< 12]"
  by (simp add: position_def kSectionOrder_def upt_rec)

lemma deliver_last:
  "last_section_id v = None \<Longrightarrow>
   (case last_section_id (deliver fmt ss v) of
      None \<Rightarrow> known_ids ss = []
    | Some l \<Rightarrow> l \<in> set (known_ids ss) \<and>
        (\<forall>p\<in>set (known_ids ss). \<not> strictly_earlier (position l) (position p)))"
proof (induction ss rule: rev_induct)
  case Nil
  then show ?case by simp
next
  case (snoc s ss)
  show ?case
  proof (cases s)
    case (CustomSection n d)
    with snoc show ?thesis
      by (simp add: deliver_append known_ids_append OnSection_custom split: option.splits)
  next
    case (KnownSection i d)
    with snoc show ?thesis
      by (auto simp: deliver_append known_ids_append OnSection_known_last
            OnSection_known_result strictly_earlier_rank split: option.splits)
  qed
qed

lemma accept_iff:
  assumes "last_section_id v = None"
  shows "fst (OnSection fmt (KnownSection i d) (deliver fmt ss v)) = Ok \<longleftrightarrow>
         (\<forall>p\<in>set (known_ids ss). strictly_earlier (position p) (position i))"
  using deliver_last [OF assms, where fmt = fmt and ss = ss]
  by (auto simp: OnSection_known_result strictly_earlier_rank split: option.splits)

lemma OnSection_violation:
  "last_section_id v = Some prev \<Longrightarrow> \<not> strictly_earlier (position prev) (position i) \<Longrightarrow>
   fst (OnSection fmt (KnownSection i d) v) = Fail \<and>
   last (errors (snd (OnSection fmt (KnownSection i d) v))) =
     (d, ''Section out of order: '' @ fmt i @ '' cannot occur after '' @ fmt prev @ [CHR 0x0A]) \<and>
   last_section_id (snd (OnSection fmt (KnownSection i d) v)) = Some prev"
  by (cases "position i"; cases "position prev")
     (auto simp: OnSection_def get_order_def optional_ge_iff OnError_def Let_def
           split: option.splits prod.splits)

lemma pass_sorted:
  "sections_pass fmt ss v \<Longrightarrow>
   sorted_wrt (\<lambda>a b. strictly_earlier (position a) (position b)) (known_ids ss) \<and>
   (\<forall>l. last_section_id v = Some l \<longrightarrow>
      (\<forall>p\<in>set (known_ids ss). strictly_earlier (position l) (position p)))"
proof (induction ss arbitrary: v)
  case Nil
  then show ?case by simp
next
  case (Cons s ss)
  show ?case
  proof (cases s)
    case (CustomSection n d)
    with Cons show ?thesis by (simp add: OnSection_custom)
  next
    case (KnownSection i d)
    let ?r = "OnSection fmt (KnownSection i d) v"
    from Cons.prems KnownSection have ok: "fst ?r = Ok" and rest: "sections_pass fmt ss (snd ?r)"
      by (auto split: prod.splits Result.splits)
    from ok have l: "last_section_id (snd ?r) = Some i"
      by (simp add: OnSection_known_last)
    from Cons.IH [OF rest] l ok show ?thesis
      using KnownSection
      by (auto simp: OnSection_known_result strictly_earlier_rank)
  qed
qed

lemma strictly_sorted_distinct:
  "sorted_wrt (\<lambda>a b. strictly_earlier (position a) (position b)) xs \<Longrightarrow> distinct xs"
  by (induction xs) (auto simp: strictly_earlier_rank)

lemma pass_distinct:
  "last_section_id v = None \<Longrightarrow> sections_pass fmt ss v \<Longrightarrow> distinct (known_ids ss)"
  using pass_sorted [of fmt ss v]
  by (simp add: strictly_sorted_distinct)

section \<open>Entry callbacks and Main: lemmas\<close>









section \<open>Section order: results\<close>

text \<open>
  C1: a custom section is accepted whatever came before and leaves the visitor as it
  was. \<open>kSectionOrder\<close> gives Type, Import, Function, Table, Memory, Global, Export,
  Start, Element, DataCount, Code, Data the positions 0 to 11. After any run of
  sections delivered to a fresh visitor, a known section is accepted if and only if
  every known section seen before it lies strictly earlier in that order. A known
  section that does not lie strictly after the last accepted one makes OnSection
  return Fail, and the last error reported is "Section out of order: <id> cannot occur
  after <previous id>" (with a line feed) at the section's contents.
\<close>

theorem OnSection_canonical_order:
  "OnSection fmt (CustomSection n d) v = (Ok, v) \<and>
   map position kSectionOrder = map Some [0 ..< 12] \<and>
   (last_section_id v0 = None \<longrightarrow>
     (fst (OnSection fmt (KnownSection i d) (deliver fmt ss v0)) = Ok \<longleftrightarrow>
      (\<forall>p\<in>set (known_ids ss). strictly_earlier (position p) (position i)))) \<and>
   (last_section_id v = Some prev \<and> \<not> strictly_earlier (position prev) (position i) \<longrightarrow>
     fst (OnSection fmt (KnownSection i d) v) = Fail \<and>
     last (errors (snd (OnSection fmt (KnownSection i d) v))) =
       (d, ''Section out of order: '' @ fmt i @ '' cannot occur after '' @ fmt prev @
           [CHR 0x0A]))"
  using OnSection_custom [of fmt n d v] position_kSectionOrder
    accept_iff [of v0 fmt i d ss] OnSection_violation [of v prev i fmt d]
  by blast

theorem OnSection_canonical_order_witness:
  "last_section_id (Visitor_init () []) = None \<and>
   last_section_id (deliver section_name [KnownSection SectionId_Function [0]]
      (Visitor_init () [])) = Some SectionId_Function \<and>
   \<not> strictly_earlier (position SectionId_Function) (position SectionId_Import) \<and>
   set (known_ids [KnownSection SectionId_Function [0]]) = {SectionId_Function} \<and>
   OnSection section_name (CustomSection ''name'' [1])
     (deliver section_name [KnownSection SectionId_Function [0]] (Visitor_init () [])) =
     (Ok, deliver section_name [KnownSection SectionId_Function [0]] (Visitor_init () [])) \<and>
   fst (OnSection section_name (KnownSection SectionId_Import [1])
     (deliver section_name [KnownSection SectionId_Function [0]] (Visitor_init () []))) = Fail \<and>
   last (errors (snd (OnSection section_name (KnownSection SectionId_Import [1])
     (deliver section_name [KnownSection SectionId_Function [0]] (Visitor_init () []))))) =
     ([1], ''Section out of order: import cannot occur after function'' @ [CHR 0x0A])"
  using OnSection_canonical_order [where fmt = section_name and n = "''name''"
      and d = "[1]" and i = SectionId_Import and prev = SectionId_Function
      and v = "deliver section_name [KnownSection SectionId_Function [0]] (Visitor_init () [])"
      and ?v0.0 = "Visitor_init () []" and ss = "[KnownSection SectionId_Function [0]]"]
  by (simp add: Visitor_init_def OnSection_def get_order_def position_def kSectionOrder_def
        OnError_def)

text \<open>
  C9: a known section whose id is the id of the last accepted known section is
  rejected, since the comparison is greater-or-equal. Hence, when every section of a
  run delivered to a fresh visitor is accepted, no known section id occurs twice.
\<close>

theorem OnSection_rejects_duplicate:
  "(last_section_id v = Some i \<longrightarrow> fst (OnSection fmt (KnownSection i d) v) = Fail) \<and>
   (last_section_id v0 = None \<and> sections_pass fmt ss v0 \<longrightarrow> distinct (known_ids ss))"
proof -
  have "fst (OnSection fmt (KnownSection i d) v) \<noteq> Ok" if "last_section_id v = Some i"
    using that by (simp add: OnSection_known_result strictly_earlier_rank)
  then have "last_section_id v = Some i \<longrightarrow> fst (OnSection fmt (KnownSection i d) v) = Fail"
    by (cases "fst (OnSection fmt (KnownSection i d) v)") auto
  then show ?thesis
    using pass_distinct [of v0 fmt ss] by blast
qed

theorem OnSection_rejects_duplicate_witness:
  "last_section_id (snd (OnSection section_name (KnownSection SectionId_Type [0])
      (Visitor_init () []))) = Some SectionId_Type \<and>
   fst (OnSection section_name (KnownSection SectionId_Type [1])
      (snd (OnSection section_name (KnownSection SectionId_Type [0]) (Visitor_init () [])))) = Fail \<and>
   last_section_id (Visitor_init () []) = None \<and>
   sections_pass section_name
     [KnownSection SectionId_Type [0], CustomSection ''name'' [1],
      KnownSection SectionId_Code [2]] (Visitor_init () []) \<and>
   distinct (known_ids [KnownSection SectionId_Type [0], CustomSection ''name'' [1],
      KnownSection SectionId_Code [2]])"
  using OnSection_rejects_duplicate [where fmt = section_name and i = SectionId_Type
      and d = "[1]" and ?v0.0 = "Visitor_init () []"
      and v = "snd (OnSection section_name (KnownSection SectionId_Type [0]) (Visitor_init () []))"
      and ss = "[KnownSection SectionId_Type [0], CustomSection ''name'' [1],
        KnownSection SectionId_Code [2]]"]
  by (simp add: Visitor_init_def OnSection_def get_order_def position_def kSectionOrder_def
        OnError_def)

section \<open>Entry callbacks and Main: results\<close>







section \<open>The text writer: lemmas\<close>

lemma Write_string_view_eq:
  "Write_string_view t (c, out) = (c\<lparr>separator := '' ''\<rparr>, out @ separator c @ t)"
  by (simp add: Write_string_view_def ClearSeparator_def Space_def)

lemma WriteFormat_eq:
  "WriteFormat t (c, out) = (c\<lparr>separator := '' ''\<rparr>, out @ separator c @ t)"
  by (simp add: WriteFormat_def ClearSeparator_def Space_def)

lemma WriteLpar_eq:
  "WriteLpar (c, out) = (c\<lparr>separator := []\<rparr>, out @ separator c @ ''('')"
  by (simp add: WriteLpar_def ClearSeparator_def)

lemma WriteLpar_name_eq:
  "WriteLpar_name n (c, out) = (c\<lparr>separator := '' ''\<rparr>, out @ separator c @ ''('' @ n)"
  by (simp add: WriteLpar_name_def WriteLpar_eq Space_def)

lemma WriteRpar_eq:
  "WriteRpar (c, out) = (c\<lparr>separator := '' ''\<rparr>, out @ '')'')"
  by (simp add: WriteRpar_def ClearSeparator_def Space_def)

lemma emitsI:
  "(\<And>c out. W (c, out) = (c\<lparr>separator := '' ''\<rparr>, out @ separator c @ t (base c))) \<Longrightarrow> emits W t"
  by (simp add: emits_def)

lemma emitsD:
  "emits W t \<Longrightarrow> W (c, out) = (c\<lparr>separator := '' ''\<rparr>, out @ separator c @ t (base c))"
  by (simp add: emits_def)

lemma emits_text_of: "emits W t \<Longrightarrow> text_of W = t"
  by (rule ext) (simp add: text_of_def emitsD)

lemma emits_string_view: "emits (Write_string_view t) (\<lambda>b. t)"
  by (rule emitsI) (simp add: Write_string_view_eq)

lemma emits_WriteFormat: "emits (WriteFormat t) (\<lambda>b. t)"
  by (rule emitsI) (simp add: WriteFormat_eq)

lemma emits_seq:
  "emits W1 t1 \<Longrightarrow> emits W2 t2 \<Longrightarrow> emits (\<lambda>s. W2 (W1 s)) (\<lambda>b. t1 b @ '' '' @ t2 b)"
  by (rule emitsI) (simp add: emitsD)

lemma emits_paren:
  "emits W t \<Longrightarrow> emits (\<lambda>s. WriteRpar (W (WriteLpar_name n s))) (\<lambda>b. ''('' @ n @ '' '' @ t b @ '')'')"
  by (rule emitsI) (simp add: emitsD WriteLpar_name_eq WriteRpar_eq)

lemma silentD: "silent W \<Longrightarrow> W s = s"
  by (simp add: silent_def del: split_paired_All)

lemma emits_paren_silent:
  "silent W \<Longrightarrow> emits (\<lambda>s. WriteRpar (W (WriteLpar_name n s))) (\<lambda>b. ''('' @ n @ '')'')"
  by (rule emitsI) (simp add: silentD WriteLpar_name_eq WriteRpar_eq)

lemma regular_silent: "silent W \<Longrightarrow> regular W"
  by (simp add: regular_def)

lemma regular_emits: "emits W t \<Longrightarrow> regular W"
  by (auto simp: regular_def)

lemma regular_id: "regular (\<lambda>s. s)"
  by (simp add: regular_def silent_def)

lemma regular_seq:
  assumes "regular W1" "regular W2"
  shows "regular (\<lambda>s. W2 (W1 s))"
proof -
  consider "silent W1" | t1 where "emits W1 t1" "silent W2" | t1 t2 where "emits W1 t1" "emits W2 t2"
    using assms by (auto simp: regular_def)
  then show ?thesis
  proof cases
    case 1
    then have "(\<lambda>s. W2 (W1 s)) = W2" by (simp add: silentD)
    with assms show ?thesis by simp
  next
    case 2
    then have "(\<lambda>s. W2 (W1 s)) = W1" by (simp add: silentD)
    with assms show ?thesis by simp
  next
    case 3
    then show ?thesis by (blast intro: regular_emits emits_seq)
  qed
qed

lemma emits_regular_seq:
  assumes "emits W1 t1" "regular W2"
  shows "\<exists>t. emits (\<lambda>s. W2 (W1 s)) t"
proof -
  consider "silent W2" | t2 where "emits W2 t2"
    using assms by (auto simp: regular_def)
  then show ?thesis
  proof cases
    case 1
    then have "(\<lambda>s. W2 (W1 s)) = W1" by (simp add: silentD)
    with assms show ?thesis by auto
  next
    case 2
    with assms show ?thesis by (blast intro: emits_seq)
  qed
qed

lemma regular_paren:
  "regular W \<Longrightarrow> \<exists>t. emits (\<lambda>s. WriteRpar (W (WriteLpar_name n s))) t"
  by (auto simp: regular_def intro: emits_paren emits_paren_silent)

lemma regular_WriteRange:
  "(\<And>x. x \<in> set xs \<Longrightarrow> regular (W x)) \<Longrightarrow> regular (WriteRange W xs)"
proof (induction xs)
  case Nil
  have "WriteRange W [] = (\<lambda>s. s)" by (rule ext) simp
  then show ?case by (simp add: regular_id)
next
  case (Cons x xs)
  have "WriteRange W (x # xs) = (\<lambda>s. WriteRange W xs (W x s))" by (rule ext) simp
  with Cons show ?case by (simp add: regular_seq)
qed

lemma regular_optional: "(\<And>x. regular (W x)) \<Longrightarrow> regular (Write_optional W v)"
proof (cases v)
  case None
  assume "\<And>x. regular (W x)"
  have "Write_optional W None = (\<lambda>s. s)" by (rule ext) simp
  with None show ?thesis by (simp add: regular_id)
next
  case (Some a)
  assume r: "\<And>x. regular (W x)"
  have "Write_optional W (Some a) = W a" by (rule ext) simp
  with Some r show ?thesis by simp
qed

text \<open>After a pending space, every piece of a range is preceded by one space.\<close>

lemma WriteRange_spaced:
  "(\<And>x. x \<in> set xs \<Longrightarrow> emits (W x) (t x)) \<Longrightarrow> separator c = '' '' \<Longrightarrow>
   WriteRange W xs (c, out) = (c, out @ concat (map (\<lambda>x. '' '' @ t x (base c)) xs))"
proof (induction xs arbitrary: out)
  case Nil
  then show ?case by simp
next
  case (Cons x xs)
  have c: "c\<lparr>separator := '' ''\<rparr> = c" using Cons.prems(2) by simp
  from Cons.prems have "W x (c, out) = (c, out @ '' '' @ t x (base c))"
    using emitsD [of "W x" "t x" c out] c by simp
  with Cons.IH [of "out @ '' '' @ t x (base c)"] Cons.prems show ?case by simp
qed

lemma regular_eqI: "regular W' \<Longrightarrow> (\<And>s. W s = W' s) \<Longrightarrow> regular W"
proof -
  assume r: "regular W'" and e: "\<And>s. W s = W' s"
  from e have "W = W'" by (rule ext)
  with r show ?thesis by simp
qed

lemma emits_eqI: "emits W' t \<Longrightarrow> (\<And>s. W s = W' s) \<Longrightarrow> emits W t"
proof -
  assume r: "emits W' t" and e: "\<And>s. W s = W' s"
  from e have "W = W'" by (rule ext)
  with r show ?thesis by simp
qed

lemma regular_emits_seq:
  assumes "regular W1" "emits W2 t2"
  shows "\<exists>t. emits (\<lambda>s. W2 (W1 s)) t"
proof -
  consider "silent W1" | t1 where "emits W1 t1"
    using assms by (auto simp: regular_def)
  then show ?thesis
  proof cases
    case 1
    then have "(\<lambda>s. W2 (W1 s)) = W2" by (simp add: silentD)
    with assms show ?thesis by auto
  next
    case 2
    with assms show ?thesis by (blast intro: emits_seq)
  qed
qed

lemma emits_base:
  "emits (\<lambda>s. Write_string_view (f (base (fst s))) s) f"
  by (rule emitsI) (simp add: Write_string_view_eq)

lemma emits_WriteNat: "emits (WriteNat F v) (NatToStr_u32 F v)"
  by (rule emits_eqI [OF emits_base]) (simp add: WriteNat_def)
lemma emits_Write_u8: "emits (Write_u8 F v) (IntToStr_u8 F v)"
  by (rule emits_eqI [OF emits_base]) (simp add: Write_u8_def)
lemma emits_Write_u32: "emits (Write_u32 F v) (IntToStr_u32 F v)"
  by (rule emits_eqI [OF emits_base]) (simp add: Write_u32_def)
lemma emits_Write_s32: "emits (Write_s32 F v) (IntToStr_s32 F v)"
  by (rule emits_eqI [OF emits_base]) (simp add: Write_s32_def)
lemma emits_Write_s64: "emits (Write_s64 F v) (IntToStr_s64 F v)"
  by (rule emits_eqI [OF emits_base]) (simp add: Write_s64_def)
lemma emits_Write_f32: "emits (Write_f32 F v) (FloatToStr_f32 F v)"
  by (rule emits_eqI [OF emits_base]) (simp add: Write_f32_def)
lemma emits_Write_f64: "emits (Write_f64 F v) (FloatToStr_f64 F v)"
  by (rule emits_eqI [OF emits_base]) (simp add: Write_f64_def)

lemma emits_Write_Var: "emits (Write_Var F v) (Var_text F v)"
proof (cases v)
  case (Var_u32 x)
  have "Write_Var F (Var_u32 x) = WriteNat F x" by (rule ext) simp
  moreover have "Var_text F (Var_u32 x) = NatToStr_u32 F x" by (rule ext) simp
  ultimately show ?thesis using Var_u32 emits_WriteNat [of F x] by simp
next
  case (Var_string_view x)
  have "Write_Var F (Var_string_view x) = Write_string_view x" by (rule ext) simp
  moreover have "Var_text F (Var_string_view x) = (\<lambda>b. x)" by (rule ext) simp
  ultimately show ?thesis using Var_string_view emits_string_view [of x] by simp
qed

lemma emits_Write_ValueType: "emits (Write_ValueType F v) (\<lambda>b. format_ValueType F v)"
  by (rule emits_eqI [OF emits_WriteFormat]) (simp add: Write_ValueType_def)

lemma emits_Write_Opcode: "emits (Write_Opcode F v) (\<lambda>b. format_Opcode F v)"
  by (rule emits_eqI [OF emits_WriteFormat]) (simp add: Write_Opcode_def)

lemma emits_Write_ReferenceType:
  "emits (Write_ReferenceType F v) (\<lambda>b. format_ReferenceType F v)"
  by (rule emits_eqI [OF emits_WriteFormat]) (simp add: Write_ReferenceType_def)

lemma emits_Write_ExternalKind:
  "emits (Write_ExternalKind F v) (\<lambda>b. format_ExternalKind F v)"
  by (rule emits_eqI [OF emits_WriteFormat]) (simp add: Write_ExternalKind_def)

lemma regular_Write_VarList: "regular (Write_VarList F vs)"
  by (rule regular_eqI [OF regular_WriteRange [of vs "Write_Var F"]])
     (auto simp: Write_VarList_def WriteVector_def intro: regular_emits emits_Write_Var)

lemma regular_Write_ValueTypeList: "regular (Write_ValueTypeList F vs)"
  by (rule regular_eqI [OF regular_WriteRange [of vs "Write_ValueType F"]])
     (auto simp: Write_ValueTypeList_def WriteVector_def intro: regular_emits emits_Write_ValueType)

lemma regular_Write_ValueTypeList_name: "regular (\<lambda>s. Write_ValueTypeList_name F vs n s)"
proof (cases "vs = []")
  case True
  then show ?thesis by (simp add: Write_ValueTypeList_name_def regular_id)
next
  case False
  from regular_paren [OF regular_Write_ValueTypeList, of F vs n]
  obtain t where "emits (\<lambda>s. WriteRpar (Write_ValueTypeList F vs (WriteLpar_name n s))) t" ..
  then have "regular (\<lambda>s. WriteRpar (Write_ValueTypeList F vs (WriteLpar_name n s)))"
    by (rule regular_emits)
  then show ?thesis
    by (rule regular_eqI) (simp add: Write_ValueTypeList_name_def False)
qed

lemma regular_Write_FunctionType: "regular (Write_FunctionType F v)"
  by (rule regular_eqI [OF regular_seq [OF regular_Write_ValueTypeList_name
        regular_Write_ValueTypeList_name]])
     (simp add: Write_FunctionType_def)

lemma regular_WriteTypeUse: "regular (WriteTypeUse F v)"
proof (cases v)
  case None
  show ?thesis by (rule regular_eqI [OF regular_id]) (simp add: WriteTypeUse_def None)
next
  case (Some var)
  from regular_paren [OF regular_emits [OF emits_Write_Var], of F var "''type''"]
  obtain t where "emits (\<lambda>s. WriteRpar (Write_Var F var (WriteLpar_name ''type'' s))) t" ..
  then have "regular (\<lambda>s. WriteRpar (Write_Var F var (WriteLpar_name ''type'' s)))"
    by (rule regular_emits)
  then show ?thesis by (rule regular_eqI) (simp add: WriteTypeUse_def Some)
qed

lemma regular_Write_FunctionTypeUse: "regular (Write_FunctionTypeUse F v)"
  by (rule regular_eqI [OF regular_seq [OF regular_WriteTypeUse regular_Write_FunctionType]])
     (simp add: Write_FunctionTypeUse_def)

lemma regular_label: "regular (Write_optional Write_string_view v)"
  by (rule regular_optional) (rule regular_emits [OF emits_string_view])

lemma regular_optional_Var: "regular (Write_optional (Write_Var F) v)"
  by (rule regular_optional) (rule regular_emits [OF emits_Write_Var])

lemma regular_Write_BlockImmediate: "regular (Write_BlockImmediate F v)"
  by (rule regular_eqI [OF regular_seq [OF regular_label regular_Write_FunctionTypeUse]])
     (simp add: Write_BlockImmediate_def)

lemma regular_Write_BrOnExnImmediate: "regular (Write_BrOnExnImmediate F v)"
  by (rule regular_eqI [OF regular_seq [OF regular_emits [OF emits_Write_Var]
        regular_emits [OF emits_Write_Var]]])
     (simp add: Write_BrOnExnImmediate_def)

lemma regular_Write_BrTableImmediate: "regular (Write_BrTableImmediate F v)"
  by (rule regular_eqI [OF regular_seq [OF regular_Write_VarList
        regular_emits [OF emits_Write_Var]]])
     (simp add: Write_BrTableImmediate_def)

lemma regular_Write_CallIndirectImmediate: "regular (Write_CallIndirectImmediate F v)"
  by (rule regular_eqI [OF regular_seq [OF regular_optional_Var regular_Write_FunctionTypeUse]])
     (simp add: Write_CallIndirectImmediate_def)

lemma regular_Write_CopyImmediate: "regular (Write_CopyImmediate F v)"
  by (rule regular_eqI [OF regular_seq [OF regular_optional_Var regular_optional_Var]])
     (simp add: Write_CopyImmediate_def)

lemma regular_Write_InitImmediate: "regular (Write_InitImmediate F v)"
proof -
  have "regular (\<lambda>s. Write_Var F (InitImmediate_segment v)
                  (Write_optional (Write_Var F) (InitImmediate_dst v) s))"
    by (rule regular_seq [OF regular_optional_Var regular_emits [OF emits_Write_Var]])
  then show ?thesis
    by (rule regular_eqI) (simp add: Write_InitImmediate_def split: option.splits)
qed

lemma emits_attribute:
  "emits (\<lambda>s. Write_u32 F v (in_context ClearSeparator (Write_string_view n s)))
     (\<lambda>b. n @ IntToStr_u32 F v b)"
  by (rule emitsI) (simp add: Write_string_view_eq Write_u32_def ClearSeparator_def)

lemma regular_attribute:
  "regular (\<lambda>s. case v of Some x \<Rightarrow>
      Write_u32 F x (in_context ClearSeparator (Write_string_view n s)) | None \<Rightarrow> s)"
  by (cases v) (auto simp: regular_id intro: regular_emits emits_attribute)

lemma regular_Write_MemArgImmediate: "regular (Write_MemArgImmediate F v)"
proof -
  have "regular (\<lambda>s.
          (case MemArgImmediate_align v of
             Some x \<Rightarrow> Write_u32 F x (in_context ClearSeparator (Write_string_view ''align='' s))
           | None \<Rightarrow> s))" (is "regular ?A")
    by (rule regular_attribute)
  moreover have "regular (\<lambda>s.
          (case MemArgImmediate_offset v of
             Some x \<Rightarrow> Write_u32 F x (in_context ClearSeparator (Write_string_view ''offset='' s))
           | None \<Rightarrow> s))" (is "regular ?O")
    by (rule regular_attribute)
  ultimately have "regular (\<lambda>s. ?A (?O s))"
    by (rule regular_seq [rotated])
  then show ?thesis
    by (rule regular_eqI) (simp add: Write_MemArgImmediate_def split: option.splits)
qed

lemma regular_Write_ShuffleImmediate: "regular (Write_ShuffleImmediate F v)"
  by (rule regular_eqI [OF regular_WriteRange [of v "Write_u8 F"]])
     (auto simp: Write_ShuffleImmediate_def intro: regular_emits emits_Write_u8)

lemma regular_Write_v128: "regular (Write_v128 F v)"
  by (rule regular_eqI [OF regular_seq [OF regular_emits [OF emits_string_view]
        regular_WriteRange [of v "Write_u32 F"]]])
     (auto simp: Write_v128_def intro: regular_emits emits_Write_u32)

lemma regular_Write_Immediate: "regular (Write_Immediate F v)"
proof (cases v)
  case Immediate_monostate
  show ?thesis by (rule regular_eqI [OF regular_id]) (simp add: Immediate_monostate)
next
  case (Immediate_s32 x)
  show ?thesis by (rule regular_eqI [OF regular_emits [OF emits_Write_s32]]) (simp add: Immediate_s32)
next
  case (Immediate_s64 x)
  show ?thesis by (rule regular_eqI [OF regular_emits [OF emits_Write_s64]]) (simp add: Immediate_s64)
next
  case (Immediate_f32 x)
  show ?thesis by (rule regular_eqI [OF regular_emits [OF emits_Write_f32]]) (simp add: Immediate_f32)
next
  case (Immediate_f64 x)
  show ?thesis by (rule regular_eqI [OF regular_emits [OF emits_Write_f64]]) (simp add: Immediate_f64)
next
  case (Immediate_v128 x)
  show ?thesis by (rule regular_eqI [OF regular_Write_v128]) (simp add: Immediate_v128)
next
  case (Immediate_Var x)
  show ?thesis by (rule regular_eqI [OF regular_emits [OF emits_Write_Var]]) (simp add: Immediate_Var)
next
  case (Immediate_Block x)
  show ?thesis by (rule regular_eqI [OF regular_Write_BlockImmediate]) (simp add: Immediate_Block)
next
  case (Immediate_BrOnExn x)
  show ?thesis by (rule regular_eqI [OF regular_Write_BrOnExnImmediate]) (simp add: Immediate_BrOnExn)
next
  case (Immediate_BrTable x)
  show ?thesis by (rule regular_eqI [OF regular_Write_BrTableImmediate]) (simp add: Immediate_BrTable)
next
  case (Immediate_CallIndirect x)
  show ?thesis
    by (rule regular_eqI [OF regular_Write_CallIndirectImmediate]) (simp add: Immediate_CallIndirect)
next
  case (Immediate_Copy x)
  show ?thesis by (rule regular_eqI [OF regular_Write_CopyImmediate]) (simp add: Immediate_Copy)
next
  case (Immediate_Init x)
  show ?thesis by (rule regular_eqI [OF regular_Write_InitImmediate]) (simp add: Immediate_Init)
next
  case (Immediate_MemArg x)
  show ?thesis by (rule regular_eqI [OF regular_Write_MemArgImmediate]) (simp add: Immediate_MemArg)
next
  case (Immediate_ReferenceType x)
  show ?thesis
    by (rule regular_eqI [OF regular_emits [OF emits_Write_ReferenceType]])
       (simp add: Immediate_ReferenceType)
next
  case (Immediate_Select x)
  show ?thesis by (rule regular_eqI [OF regular_Write_ValueTypeList]) (simp add: Immediate_Select)
next
  case (Immediate_Shuffle x)
  show ?thesis by (rule regular_eqI [OF regular_Write_ShuffleImmediate]) (simp add: Immediate_Shuffle)
next
  case (Immediate_SimdLane x)
  show ?thesis by (rule regular_eqI [OF regular_emits [OF emits_Write_u8]]) (simp add: Immediate_SimdLane)
qed

lemma emits_Write_Instruction: "emits (Write_Instruction F v) (Instruction_text F v)"
proof -
  from emits_regular_seq [OF emits_Write_Opcode regular_Write_Immediate]
  obtain t where
    "emits (\<lambda>s. Write_Immediate F (Instruction_immediate v)
                  (Write_Opcode F (Instruction_opcode v) s)) t"
    by blast
  then have e: "emits (Write_Instruction F v) t"
    by (rule emits_eqI) (simp add: Write_Instruction_def)
  then show ?thesis
    by (simp add: Instruction_text_def emits_text_of)
qed

lemma Write_Instruction_eq:
  "Write_Instruction F v (c, out) =
     (c\<lparr>separator := '' ''\<rparr>, out @ separator c @ Instruction_text F v (base c))"
  by (rule emitsD [OF emits_Write_Instruction])

lemma separator_space_same: "separator c = '' '' \<Longrightarrow> c\<lparr>separator := '' ''\<rparr> = c"
  by simp

lemma Write_name_spaced:
  "separator c = '' '' \<Longrightarrow>
   Write_optional Write_string_view n (c, out) = (c, out @ name_text n)"
  by (cases n) (simp_all add: name_text_def Write_string_view_eq)

lemma Write_VarList_spaced:
  "separator c = '' '' \<Longrightarrow> Write_VarList F vs (c, out) = (c, out @ vars_text F (base c) vs)"
  using WriteRange_spaced [of vs "Write_Var F" "Var_text F" c out]
  by (simp add: Write_VarList_def WriteVector_def vars_text_def emits_Write_Var)

lemma Write_InstructionList_spaced:
  "separator c = '' '' \<Longrightarrow>
   Write_InstructionList F is (c, out) = (c, out @ instructions_text F (base c) is)"
  using WriteRange_spaced [of "is" "Write_Instruction F" "Instruction_text F" c out]
  by (simp add: Write_InstructionList_def WriteVector_def instructions_text_def
        emits_Write_Instruction)

lemma emits_Write_InlineExport:
  "emits (Write_InlineExport e) (\<lambda>b. ''(export '' @ Text_text (InlineExport_name e) @ '')'')"
  by (rule emitsI)
     (simp add: Write_InlineExport_def Write_Text_def WriteLpar_name_eq Write_string_view_eq
        WriteRpar_eq)

lemma Write_InlineExportList_spaced:
  "separator c = '' '' \<Longrightarrow> Write_InlineExportList es (c, out) = (c, out @ exports_text es)"
  using WriteRange_spaced [of es Write_InlineExport
      "\<lambda>e b. ''(export '' @ Text_text (InlineExport_name e) @ '')''" c out,
      OF emits_Write_InlineExport]
  by (simp add: Write_InlineExportList_def WriteVector_def exports_text_def)

lemma Write_InlineImport_spaced:
  "separator c = '' '' \<Longrightarrow> Write_InlineImport i (c, out) = (c, out @ import_text i)"
  by (simp add: Write_InlineImport_def Write_Text_def WriteLpar_name_eq Write_string_view_eq
        WriteRpar_eq import_text_def)

lemma Write_Limits_eq:
  "Write_Limits F l (c, out) =
     (c\<lparr>separator := '' ''\<rparr>, out @ separator c @ limits_text F (base c) l)"
  by (simp add: Write_Limits_def Write_u32_def Write_string_view_eq limits_text_def
        split: option.splits)

lemma Write_TableType_eq:
  "Write_TableType F t (c, out) =
     (c\<lparr>separator := '' ''\<rparr>,
      out @ separator c @ limits_text F (base c) (TableType_limits t) @ '' '' @
        format_ReferenceType F (TableType_elemtype t))"
  by (simp add: Write_TableType_def Write_Limits_eq WriteFormat_eq)

lemma Write_ElementExpression_parens_spaced:
  "separator c = '' '' \<Longrightarrow>
   Write_ElementExpression_parens F is (c, out) = (c, out @ parenthesized_text F (base c) is)"
proof (induction "is" arbitrary: out)
  case Nil
  then show ?case by (simp add: parenthesized_text_def)
next
  case (Cons i "is")
  from Cons.prems have
    "Write_ElementExpression_parens F (i # is) (c, out) =
     Write_ElementExpression_parens F is (c, out @ '' ('' @ Instruction_text F i (base c) @ '')'')"
    by (simp add: WriteLpar_eq Write_Instruction_eq WriteRpar_eq Space_def
          separator_space_same)
  with Cons show ?case by (simp add: parenthesized_text_def)
qed

lemma Write_ElementExpressionList_spaced:
  "separator c = '' '' \<Longrightarrow>
   Write_ElementExpressionList F es (c, out) =
     (c, out @ element_expressions_text F (base c) es)"
proof (induction es arbitrary: out)
  case Nil
  then show ?case by (simp add: element_expressions_text_def)
next
  case (Cons e es)
  then show ?case
    by (simp add: Write_ElementExpression_parens_spaced element_expressions_text_def)
qed

lemma Write_Table_inline_elements:
  "Table_import t = None \<Longrightarrow> Table_elements t = Some el \<Longrightarrow>
   Write_Table F t (c, out) =
     (c\<lparr>separator := '' ''\<rparr>,
      out @ separator c @ ''(table'' @ name_text (TableDesc_name (Table_desc t)) @
        exports_text (Table_exports t) @ '' '' @
        format_ReferenceType F (TableType_elemtype (TableDesc_type (Table_desc t))) @
        '' (elem'' @ inline_elements_text F (base c) el @ ''))'')"
  by (cases el)
     (simp_all add: Write_Table_def WriteLpar_name_eq Write_name_spaced
        Write_InlineExportList_spaced Write_ReferenceType_def WriteFormat_eq
        Write_VarList_spaced Write_ElementExpressionList_spaced WriteRpar_eq)

lemma Write_Table_limits:
  "Table_import t = None \<Longrightarrow> Table_elements t = None \<Longrightarrow>
   Write_Table F t (c, out) =
     (c\<lparr>separator := '' ''\<rparr>,
      out @ separator c @ ''(table'' @ name_text (TableDesc_name (Table_desc t)) @
        exports_text (Table_exports t) @ '' '' @
        limits_text F (base c) (TableType_limits (TableDesc_type (Table_desc t))) @ '' '' @
        format_ReferenceType F (TableType_elemtype (TableDesc_type (Table_desc t))) @ '')'')"
  by (simp add: Write_Table_def WriteLpar_name_eq Write_name_spaced
        Write_InlineExportList_spaced Write_TableType_eq WriteRpar_eq)

lemma Write_Table_import:
  "Table_import t = Some i \<Longrightarrow>
   Write_Table F t (c, out) =
     (c\<lparr>separator := '' ''\<rparr>,
      out @ separator c @ ''(table'' @ name_text (TableDesc_name (Table_desc t)) @
        exports_text (Table_exports t) @ import_text i @ '' '' @
        limits_text F (base c) (TableType_limits (TableDesc_type (Table_desc t))) @ '' '' @
        format_ReferenceType F (TableType_elemtype (TableDesc_type (Table_desc t))) @ '')'')"
  by (simp add: Write_Table_def WriteLpar_name_eq Write_name_spaced
        Write_InlineExportList_spaced Write_InlineImport_spaced Write_TableType_eq WriteRpar_eq)

lemma Write_ElementSegment_active_vars:
  "ElementSegment_type seg = Active \<Longrightarrow>
   ElementSegment_elements seg = ElementList_WithVars ev \<Longrightarrow>
   Write_ElementSegment F seg (c, out) =
     (c\<lparr>separator := '' ''\<rparr>,
      out @ separator c @ ''(elem'' @ name_text (ElementSegment_name seg) @
        table_use_text F (base c) (ElementSegment_table seg) @
        offset_text F (base c) (ElementSegment_offset seg) @
        (if ElementListWithVars_kind ev = ExternalKind_Function \<and>
            ElementSegment_table seg = None \<and> ElementSegment_name seg = None
         then []
         else '' '' @ format_ExternalKind F (ElementListWithVars_kind ev)) @
        vars_text F (base c) (ElementListWithVars_list ev) @ '')'')"
  by (cases "ElementSegment_table seg"; cases "ElementSegment_offset seg")
     (simp_all add: Write_ElementSegment_def WriteLpar_name_eq Write_name_spaced
        table_use_text_def offset_text_def Write_ExternalKind_def WriteFormat_eq
        Write_VarList_spaced WriteRpar_eq emitsD [OF emits_Write_Var]
        Write_ConstantExpression_def Write_InstructionList_spaced)



lemmas sample_defs =
  sample_formatters_def digit_text_def sample_block_def sample_plain_def sample_const_def
  sample_segment_def sample_table_def sample_elements_def sample_import_def
  WriteContext_init_def

section \<open>The text writer: results\<close>

text \<open>
  C10: \<open>Indent\<close> appends two spaces to the indent string. \<open>Dedent\<close> after \<open>Indent\<close>
  gives the context back exactly, for every context. On an indent string of at least
  two characters \<open>Dedent\<close> removes the last two. Neither of them changes the pending
  separator or the numeric base.
\<close>

theorem Dedent_Indent:
  "Indent c = c\<lparr>indent := indent c @ ''  ''\<rparr> \<and>
   Dedent (Indent c) = Inr c \<and>
   (2 \<le> length (indent c) \<longrightarrow>
      Dedent c = Inr (c\<lparr>indent := butlast (butlast (indent c))\<rparr>)) \<and>
   separator (Indent c) = separator c \<and> base (Indent c) = base c \<and>
   (\<forall>c'. Dedent c = Inr c' \<longrightarrow> separator c' = separator c \<and> base c' = base c)"
  by (auto simp: Indent_def Dedent_def butlast_conv_take numeral_2_eq_2 split: if_splits)

theorem Dedent_Indent_witness:
  "2 \<le> length (indent (Indent WriteContext_init)) \<and>
   Dedent (Indent WriteContext_init) = Inr WriteContext_init \<and>
   separator WriteContext_init = separator (Indent WriteContext_init) \<and>
   base WriteContext_init = base (Indent WriteContext_init) \<and>
   indent (Indent WriteContext_init) = [CHR 0x0A] @ ''  ''"
  using Dedent_Indent [of "Indent WriteContext_init"] Dedent_Indent [of WriteContext_init]
  by (simp add: Indent_def WriteContext_init_def)

text \<open>
  C3: a token writer (\<open>Write\<close> of a string view, \<open>WriteFormat\<close>) writes the pending
  separator, then the token, and leaves a single space pending. \<open>WriteLpar\<close> writes the
  pending separator and the parenthesis and leaves nothing pending, so the next token
  follows the parenthesis at once; with a name it writes the name after the parenthesis
  and leaves a space pending. \<open>WriteRpar\<close> drops the pending separator and writes the
  parenthesis alone, so nothing stands between the token before it and the parenthesis.
\<close>

theorem token_separator:
  "Write_string_view t (c, out) = (c\<lparr>separator := '' ''\<rparr>, out @ separator c @ t) \<and>
   WriteFormat t (c, out) = (c\<lparr>separator := '' ''\<rparr>, out @ separator c @ t) \<and>
   WriteLpar (c, out) = (c\<lparr>separator := []\<rparr>, out @ separator c @ ''('') \<and>
   WriteLpar_name n (c, out) = (c\<lparr>separator := '' ''\<rparr>, out @ separator c @ ''('' @ n) \<and>
   WriteRpar (c, out) = (c\<lparr>separator := '' ''\<rparr>, out @ '')'') \<and>
   snd (Write_string_view t (WriteLpar (c, out))) = out @ separator c @ ''('' @ t \<and>
   snd (WriteRpar (Write_string_view t (c, out))) = out @ separator c @ t @ '')'' \<and>
   snd (Write_string_view u (Write_string_view t (c, out))) =
     out @ separator c @ t @ '' '' @ u"
  by (simp add: Write_string_view_eq WriteFormat_eq WriteLpar_eq WriteLpar_name_eq WriteRpar_eq)

theorem token_separator_witness:
  "snd (WriteRpar (Write_string_view ''1'' (Write_string_view ''i32.const''
     (WriteLpar (WriteContext_init\<lparr>separator := '' ''\<rparr>, ''(offset''))))) =
   ''(offset (i32.const 1)''"
  using token_separator [of "''i32.const''" "WriteContext_init\<lparr>separator := '' ''\<rparr>"
      "''(offset''" "''x''" "''1''"]
  by (simp add: Write_string_view_eq WriteRpar_eq)

text \<open>
  C5: when the offset is present, \<open>offset=\<close> is written (after the pending separator)
  with the offset numeral right behind it; when the align is present, \<open>align=\<close> is
  written with the align numeral right behind it; when both are present the offset
  attribute comes first and one space separates the two.
\<close>

theorem MemArgImmediate_concatenated:
  "Write_MemArgImmediate F \<lparr>MemArgImmediate_align = None, MemArgImmediate_offset = Some off\<rparr>
     (c, out) =
     (c\<lparr>separator := '' ''\<rparr>, out @ separator c @ ''offset='' @ IntToStr_u32 F off (base c)) \<and>
   Write_MemArgImmediate F \<lparr>MemArgImmediate_align = Some al, MemArgImmediate_offset = None\<rparr>
     (c, out) =
     (c\<lparr>separator := '' ''\<rparr>, out @ separator c @ ''align='' @ IntToStr_u32 F al (base c)) \<and>
   Write_MemArgImmediate F \<lparr>MemArgImmediate_align = Some al, MemArgImmediate_offset = Some off\<rparr>
     (c, out) =
     (c\<lparr>separator := '' ''\<rparr>,
      out @ separator c @ ''offset='' @ IntToStr_u32 F off (base c) @ '' '' @
        ''align='' @ IntToStr_u32 F al (base c)) \<and>
   Write_MemArgImmediate F \<lparr>MemArgImmediate_align = None, MemArgImmediate_offset = None\<rparr>
     (c, out) = (c, out)"
  by (simp add: Write_MemArgImmediate_def Write_string_view_eq Write_u32_def ClearSeparator_def)

theorem MemArgImmediate_concatenated_witness:
  "snd (Write_MemArgImmediate sample_formatters
     \<lparr>MemArgImmediate_align = Some 4, MemArgImmediate_offset = Some 8\<rparr>
     (WriteContext_init\<lparr>separator := '' ''\<rparr>, ''i32.load'')) =
   ''i32.load offset=8 align=4''"
  using MemArgImmediate_concatenated [of sample_formatters 8
      "WriteContext_init\<lparr>separator := '' ''\<rparr>" "''i32.load''" 4]
  by (simp add: sample_formatters_def digit_text_def WriteContext_init_def)



text \<open>
  C4: the text of an active element segment with a variable list. The keyword of the
  external kind is left out exactly when the kind is Function, there is no table use
  and there is no name; in every other case it is written, after a space, between the
  offset and the variables.
\<close>

theorem ElementSegment_legacy_form:
  "ElementSegment_type seg = Active \<and> ElementSegment_elements seg = ElementList_WithVars ev \<longrightarrow>
   Write_ElementSegment F seg (c, out) =
     (c\<lparr>separator := '' ''\<rparr>,
      out @ separator c @ ''(elem'' @ name_text (ElementSegment_name seg) @
        table_use_text F (base c) (ElementSegment_table seg) @
        offset_text F (base c) (ElementSegment_offset seg) @
        (if ElementListWithVars_kind ev = ExternalKind_Function \<and>
            ElementSegment_table seg = None \<and> ElementSegment_name seg = None
         then []
         else '' '' @ format_ExternalKind F (ElementListWithVars_kind ev)) @
        vars_text F (base c) (ElementListWithVars_list ev) @ '')'')"
  using Write_ElementSegment_active_vars [of seg ev F c out] by blast

theorem ElementSegment_legacy_form_witness:
  "ElementSegment_type (sample_segment None) = Active \<and>
   snd (Write_ElementSegment sample_formatters (sample_segment None) (WriteContext_init, [])) =
     ''(elem (offset i32.const 0) 0 $f)'' \<and>
   ElementSegment_type (sample_segment (Some ''$e'')) = Active \<and>
   snd (Write_ElementSegment sample_formatters (sample_segment (Some ''$e''))
          (WriteContext_init, [])) =
     ''(elem $e (offset i32.const 0) func 0 $f)''"
  using ElementSegment_legacy_form [of "sample_segment None"
      "\<lparr>ElementListWithVars_kind = ExternalKind_Function,
        ElementListWithVars_list = [Var_u32 0, Var_string_view ''$f'']\<rparr>"
      sample_formatters WriteContext_init "[]"]
    ElementSegment_legacy_form [of "sample_segment (Some ''$e'')"
      "\<lparr>ElementListWithVars_kind = ExternalKind_Function,
        ElementListWithVars_list = [Var_u32 0, Var_string_view ''$f'']\<rparr>"
      sample_formatters WriteContext_init "[]"]
  by (simp add: sample_defs name_text_def table_use_text_def offset_text_def vars_text_def
        instructions_text_def Instruction_text_def text_of_def Write_Instruction_def
        Write_Opcode_def WriteFormat_eq Write_s32_def Write_string_view_eq)

text \<open>
  C6: the text of a table. Without an inline import and with an inline element list, the
  element type is followed by \<open>(elem\<close>, the elements of the list alone (not its
  external kind or reference type) and the two closing parentheses; the limits are not
  written. Without inline elements, or with an inline import, the limits are written
  before the element type.
\<close>

theorem Table_inline_elements_omit_limits:
  "(Table_import t = None \<and> Table_elements t = Some el \<longrightarrow>
     Write_Table F t (c, out) =
       (c\<lparr>separator := '' ''\<rparr>,
        out @ separator c @ ''(table'' @ name_text (TableDesc_name (Table_desc t)) @
          exports_text (Table_exports t) @ '' '' @
          format_ReferenceType F (TableType_elemtype (TableDesc_type (Table_desc t))) @
          '' (elem'' @ inline_elements_text F (base c) el @ ''))'')) \<and>
   (Table_import t = None \<and> Table_elements t = None \<longrightarrow>
     Write_Table F t (c, out) =
       (c\<lparr>separator := '' ''\<rparr>,
        out @ separator c @ ''(table'' @ name_text (TableDesc_name (Table_desc t)) @
          exports_text (Table_exports t) @ '' '' @
          limits_text F (base c) (TableType_limits (TableDesc_type (Table_desc t))) @ '' '' @
          format_ReferenceType F (TableType_elemtype (TableDesc_type (Table_desc t))) @
          '')'')) \<and>
   (Table_import t = Some i \<longrightarrow>
     Write_Table F t (c, out) =
       (c\<lparr>separator := '' ''\<rparr>,
        out @ separator c @ ''(table'' @ name_text (TableDesc_name (Table_desc t)) @
          exports_text (Table_exports t) @ import_text i @ '' '' @
          limits_text F (base c) (TableType_limits (TableDesc_type (Table_desc t))) @ '' '' @
          format_ReferenceType F (TableType_elemtype (TableDesc_type (Table_desc t))) @
          '')''))"
  using Write_Table_inline_elements [of t el F c out] Write_Table_limits [of t F c out]
    Write_Table_import [of t i F c out]
  by blast

theorem Table_inline_elements_omit_limits_witness:
  "Table_import (sample_table (Some sample_elements)) = None \<and>
   Table_elements (sample_table (Some sample_elements)) = Some sample_elements \<and>
   snd (Write_Table sample_formatters (sample_table (Some sample_elements))
          (WriteContext_init, [])) = ''(table $t funcref (elem 0 1))'' \<and>
   Table_import (sample_table None) = None \<and> Table_elements (sample_table None) = None \<and>
   snd (Write_Table sample_formatters (sample_table None) (WriteContext_init, [])) =
     ''(table $t 2 2 funcref)'' \<and>
   Table_import (sample_table (Some sample_elements)\<lparr>Table_import := Some sample_import\<rparr>) =
     Some sample_import \<and>
   snd (Write_Table sample_formatters
          (sample_table (Some sample_elements)\<lparr>Table_import := Some sample_import\<rparr>)
          (WriteContext_init, [])) = ''(table $t (import m n) 2 2 funcref)''"
  using Table_inline_elements_omit_limits [of "sample_table (Some sample_elements)"
      sample_elements sample_formatters WriteContext_init "[]" sample_import]
    Table_inline_elements_omit_limits [of "sample_table None"
      sample_elements sample_formatters WriteContext_init "[]" sample_import]
    Table_inline_elements_omit_limits [of
      "sample_table (Some sample_elements)\<lparr>Table_import := Some sample_import\<rparr>"
      sample_elements sample_formatters WriteContext_init "[]" sample_import]
  by (simp add: sample_defs name_text_def exports_text_def vars_text_def limits_text_def
        import_text_def)

end
